theory Spec2Isabelle
  imports Complex_Main "HOL-Library.Word" "HOL-Library.Monad_Syntax"
begin

unbundle bit_operations_syntax

chapter \<open>examples/15-shadowmaps-simple: mesh loading and the two-pass shadow map frame\<close>

text \<open>
  A shallow embedding of \<^verbatim>\<open>shadowmaps_simple.cpp\<close>. The C++ \<^verbatim>\<open>float\<close> is modelled by
  \<^typ>\<open>real\<close>: products and sums are exact, rounding, infinities and NaN are not modelled.
  The bounding volumes that \<^verbatim>\<open>Mesh::load\<close> copies from the file are never computed with, so
  there a float is the 32-bit pattern read from the file.
\<close>

section \<open>Matrices\<close>

text \<open>A \<^verbatim>\<open>float[16]\<close> is a list of 16 reals, indexed as the C array is.\<close>

type_synonym mtx = "real list"

definition float16 :: "(nat \<Rightarrow> real) \<Rightarrow> mtx" where
  "float16 f = [f 0, f 1, f 2, f 3, f 4, f 5, f 6, f 7, f 8, f 9, f 10, f 11, f 12, f 13, f 14, f 15]"

text \<open>
  Modelled from the spec: \<^verbatim>\<open>vec4MulMtx\<close> of \<^verbatim>\<open>fpumath.h\<close>, which is not under src/. It is the
  row of \<open>multiply(a, b)\<close> (section 4.1): a row vector of four floats times a matrix stored row
  by row. That a point is a row vector is the convention under which the source's own
  \<^verbatim>\<open>mtxCrop\<close> is a crop-bias matrix (its translation 0.5, 0.5, 0.5 sits in entries 12..14) and
  under which its comment \<^verbatim>\<open>modelLightviewProjCrop\<close> names \<^verbatim>\<open>mtxMul(lightMtx, model, mtxShadow)\<close>.
\<close>

definition vec4MulMtx :: "real list \<Rightarrow> mtx \<Rightarrow> real list" where
  "vec4MulMtx v m =
     [ v ! 0 * m ! 0 + v ! 1 * m ! 4 + v ! 2 * m ! 8  + v ! 3 * m ! 12
     , v ! 0 * m ! 1 + v ! 1 * m ! 5 + v ! 2 * m ! 9  + v ! 3 * m ! 13
     , v ! 0 * m ! 2 + v ! 1 * m ! 6 + v ! 2 * m ! 10 + v ! 3 * m ! 14
     , v ! 0 * m ! 3 + v ! 1 * m ! 7 + v ! 2 * m ! 11 + v ! 3 * m ! 15 ]"

text \<open>
  Modelled from the spec: \<^verbatim>\<open>mtxMul\<close> of \<^verbatim>\<open>fpumath.h\<close>, which is not under src/: the spec's
  \<open>multiply(a, b)\<close> (section 4.1), the product of two 4x4 matrices. Row \<open>i\<close> of the result
  is row \<open>i\<close> of \<open>a\<close> times \<open>b\<close>.
\<close>

definition mtxMul :: "mtx \<Rightarrow> mtx \<Rightarrow> mtx" where
  "mtxMul a b =
     vec4MulMtx a b @ vec4MulMtx (drop 4 a) b @ vec4MulMtx (drop 8 a) b @ vec4MulMtx (drop 12 a) b"

text \<open>
  Modelled from the spec: \<^verbatim>\<open>mtxIdentity\<close> and \<^verbatim>\<open>mtxTranslate\<close> of \<^verbatim>\<open>fpumath.h\<close>, which
  are not under src/: the spec's \<open>identity()\<close> (section 4.1) and the translation matrix of
  \<open>rotate \<cdot> translate\<close>, the identity with the translation in entries 12..14 (where the source
  writes it).
\<close>

definition mtxIdentity :: mtx where
  "mtxIdentity = (replicate 16 0)[0 := 1, 5 := 1, 10 := 1, 15 := 1]"

definition mtxTranslate :: "real \<Rightarrow> real \<Rightarrow> real \<Rightarrow> mtx" where
  "mtxTranslate tx ty tz = mtxIdentity[12 := tx, 13 := ty, 14 := tz]"

text \<open>
  \<^verbatim>\<open>mtxScaleRotateTranslate\<close> (lines 142-169). \<^verbatim>\<open>mtxRotateXYZ\<close> belongs to \<^verbatim>\<open>fpumath.h\<close> and
  is not under src/: it is the parameter \<open>mtxRotateXYZ\<close>, which gives, for the three angles,
  the value it writes at each index of the caller's \<^verbatim>\<open>float mtxRotateTranslate[16]\<close>.
\<close>

definition mtxScaleRotateTranslate ::
  "(real \<Rightarrow> real \<Rightarrow> real \<Rightarrow> nat \<Rightarrow> real) \<Rightarrow>
   real \<Rightarrow> real \<Rightarrow> real \<Rightarrow> real \<Rightarrow> real \<Rightarrow> real \<Rightarrow> real \<Rightarrow> real \<Rightarrow> real \<Rightarrow> mtx" where
  "mtxScaleRotateTranslate mtxRotateXYZ scaleX scaleY scaleZ rotX rotY rotZ
       translateX translateY translateZ =
     (let mtxRotateTranslate = float16 (mtxRotateXYZ rotX rotY rotZ);
          mtxRotateTranslate = mtxRotateTranslate[12 := translateX];
          mtxRotateTranslate = mtxRotateTranslate[13 := translateY];
          mtxRotateTranslate = mtxRotateTranslate[14 := translateZ];
          mtxScale = replicate 16 0;
          mtxScale = mtxScale[0 := scaleX];
          mtxScale = mtxScale[5 := scaleY];
          mtxScale = mtxScale[10 := scaleZ];
          mtxScale = mtxScale[15 := 1]
      in mtxMul mtxScale mtxRotateTranslate)"

text \<open>
  The composition in the spec's words (section 4.1): \<open>scale \<cdot> (rotate \<cdot> translate)\<close>, with a
  diagonal scale matrix, the rotation matrix and a translation matrix, each product taken
  with \<^const>\<open>mtxMul\<close>.
\<close>

definition mtxScaleDiag :: "real \<Rightarrow> real \<Rightarrow> real \<Rightarrow> mtx" where
  "mtxScaleDiag sx sy sz = (replicate 16 0)[0 := sx, 5 := sy, 10 := sz, 15 := 1]"

definition composeScaleRotateTranslate ::
  "(real \<Rightarrow> real \<Rightarrow> real \<Rightarrow> nat \<Rightarrow> real) \<Rightarrow>
   real \<Rightarrow> real \<Rightarrow> real \<Rightarrow> real \<Rightarrow> real \<Rightarrow> real \<Rightarrow> real \<Rightarrow> real \<Rightarrow> real \<Rightarrow> mtx" where
  "composeScaleRotateTranslate mtxRotateXYZ sx sy sz rx ry rz tx ty tz =
     mtxMul (mtxScaleDiag sx sy sz)
       (mtxMul (float16 (mtxRotateXYZ rx ry rz)) (mtxTranslate tx ty tz))"

text \<open>
  \<^verbatim>\<open>mtxCrop\<close> (lines 607-615), as a function of \<^verbatim>\<open>s_flipV\<close>.
\<close>

definition mtxCrop :: "bool \<Rightarrow> mtx" where
  "mtxCrop s_flipV =
     (let s = (if s_flipV then 1 else - 1) in
      [ 0.5,     0.0, 0.0, 0.0
      , 0.0, s * 0.5, 0.0, 0.0
      , 0.0,     0.0, 0.5, 0.0
      , 0.5,     0.5, 0.5, 1.0 ])"

section \<open>Resource handles and the calls made to bgfx\<close>

type_synonym byte = "8 word"

text \<open>A bgfx handle (\<^verbatim>\<open>struct { uint16_t idx; }\<close>) is its \<^verbatim>\<open>idx\<close>.\<close>

type_synonym handle = "16 word"

text \<open>
  Modelled from the spec: \<^verbatim>\<open>bgfx::invalidHandle\<close> and \<^verbatim>\<open>bgfx::isValid\<close> of \<^verbatim>\<open>bgfx.h\<close>, which
  is not under src/: the validity sentinel of a resource handle (section 3), distinct from
  any real index; a handle is valid when its index is not the sentinel.
\<close>

definition invalidHandle :: handle where
  "invalidHandle = 0xFFFF"

definition isValid :: "handle \<Rightarrow> bool" where
  "isValid h = (h \<noteq> invalidHandle)"

text \<open>
  The render states and clear flags of \<^verbatim>\<open>bgfx.h\<close> are bit masks whose values are not under
  src/; a mask is modelled by the list of the flags the source ors together.
\<close>

datatype state_flag =
    BGFX_STATE_RGB_WRITE
  | BGFX_STATE_ALPHA_WRITE
  | BGFX_STATE_DEPTH_WRITE
  | BGFX_STATE_DEPTH_TEST_LESS
  | BGFX_STATE_CULL_CCW
  | BGFX_STATE_MSAA

datatype clear_flag = BGFX_CLEAR_COLOR_BIT | BGFX_CLEAR_DEPTH_BIT

text \<open>
  bgfx is an external collaborator: the program is observed through the sequence of calls
  it makes. \<open>DBG\<close> is the diagnostic macro of \<^verbatim>\<open>Mesh::load\<close>, with its two arguments.
\<close>

datatype call =
    Alloc "32 word"
  | CreateVertexBuffer "byte list" "byte list"
  | CreateIndexBuffer "byte list"
  | DestroyVertexBuffer handle
  | DestroyIndexBuffer handle
  | DBG "32 word" nat
  | DbgTextClear
  | DbgTextPrintf nat nat "8 word" string "real list"
  | SetUniform handle "real list"
  | SetViewRect "8 word" nat nat nat nat
  | SetViewTransform "8 word" mtx mtx
  | SetViewRenderTarget "8 word" handle
  | SetViewClearMask "32 word" "clear_flag list" "32 word" real "8 word"
  | SubmitMask "32 word"
  | SetTransform mtx
  | SetProgram handle
  | SetIndexBuffer handle
  | SetVertexBuffer handle
  | SetTexture "8 word" handle handle
  | SetState "state_flag list"
  | Submit "8 word"
  | Frame

section \<open>The mesh data model\<close>

text \<open>
  \<^verbatim>\<open>Sphere\<close>, \<^verbatim>\<open>Aabb\<close>, \<^verbatim>\<open>Obb\<close> (lines 171-186): arrays of floats, kept as the bit patterns
  read from the file.
\<close>

record Sphere =
  m_center :: "32 word list"
  m_radius :: "32 word"

record Aabb =
  m_min :: "32 word list"
  m_max :: "32 word list"

record Obb =
  m_mtx :: "32 word list"

text \<open>
  \<^verbatim>\<open>Primitive\<close> (lines 188-198). Its three bounding volumes carry the suffix \<open>_prim\<close>, since
  \<^verbatim>\<open>Group\<close> has fields of the same names.
\<close>

record Primitive =
  m_startIndex :: "32 word"
  m_numIndices :: "32 word"
  m_startVertex :: "32 word"
  m_numVertices :: "32 word"
  m_sphere_prim :: Sphere
  m_aabb_prim :: Aabb
  m_obb_prim :: Obb

text \<open>
  \<^verbatim>\<open>Group\<close> (lines 202-222). The constructor and \<^verbatim>\<open>reset\<close> leave the three bounding volumes
  as they are; in a new \<^verbatim>\<open>Group\<close> they are uninitialised memory, which is \<open>None\<close> here.
\<close>

record Group =
  m_vbh :: handle
  m_ibh :: handle
  m_sphere :: "Sphere option"
  m_aabb :: "Aabb option"
  m_obb :: "Obb option"
  m_prims :: "Primitive list"

definition reset :: "Group \<Rightarrow> Group" where
  "reset g = g\<lparr>m_vbh := invalidHandle, m_ibh := invalidHandle, m_prims := []\<rparr>"

definition Group_new :: Group where
  "Group_new = reset \<lparr>m_vbh = 0, m_ibh = 0, m_sphere = None, m_aabb = None, m_obb = None, m_prims = []\<rparr>"

text \<open>
  \<^verbatim>\<open>Mesh\<close> (lines 225-388). \<^verbatim>\<open>bgfx::VertexDecl\<close> is declared in \<^verbatim>\<open>bgfx.h\<close>, not under src/;
  \<^verbatim>\<open>m_decl\<close> is the bytes of the object.
\<close>

record Mesh =
  m_decl :: "byte list"
  m_groups :: "Group list"

section \<open>Reading the file\<close>











section \<open>Mesh::load from a file\<close>

text \<open>
  What \<^verbatim>\<open>Mesh::load\<close> uses of bgfx and is not under src/ is a parameter:
  \<^verbatim>\<open>sizeof(bgfx::VertexDecl)\<close>, \<^verbatim>\<open>VertexDecl::getStride\<close> on the bytes of a declaration, and the
  handles that \<^verbatim>\<open>createVertexBuffer\<close> and \<^verbatim>\<open>createIndexBuffer\<close> answer with, each a function
  of the calls made so far (the creating call last).
\<close>

record bgfx =
  sizeof_VertexDecl :: nat
  getStride :: "byte list \<Rightarrow> 16 word"
  createVertexBuffer :: "call list \<Rightarrow> handle"
  createIndexBuffer :: "call list \<Rightarrow> handle"


































definition mesh_new :: Mesh where
  "mesh_new = \<lparr>m_decl = [], m_groups = []\<rparr>"

section \<open>Mesh::unload and Mesh::submit\<close>

text \<open>\<^verbatim>\<open>Mesh::unload\<close> (lines 340-353): the loop over \<^verbatim>\<open>m_groups\<close>, then \<^verbatim>\<open>m_groups.clear()\<close>.\<close>

fun unload_groups :: "Group list \<Rightarrow> call list \<Rightarrow> call list" where
  "unload_groups [] cs = cs"
| "unload_groups (g # it) cs =
     (let cs = cs @ [DestroyVertexBuffer (m_vbh g)];
          cs = (if isValid (m_ibh g) then cs @ [DestroyIndexBuffer (m_ibh g)] else cs)
      in unload_groups it cs)"

definition unload :: "Mesh \<Rightarrow> call list \<Rightarrow> Mesh \<times> call list" where
  "unload m cs = (m\<lparr>m_groups := []\<rparr>, unload_groups (m_groups m) cs)"

text \<open>The calls that destroy a vertex buffer, and those that destroy an index buffer.\<close>

fun destroyed_vbs :: "call list \<Rightarrow> handle list" where
  "destroyed_vbs [] = []"
| "destroyed_vbs (DestroyVertexBuffer h # cs) = h # destroyed_vbs cs"
| "destroyed_vbs (c # cs) = destroyed_vbs cs"

fun destroyed_ibs :: "call list \<Rightarrow> handle list" where
  "destroyed_ibs [] = []"
| "destroyed_ibs (DestroyIndexBuffer h # cs) = h # destroyed_ibs cs"
| "destroyed_ibs (c # cs) = destroyed_ibs cs"

text \<open>
  What the frame loop of \<^verbatim>\<open>_main_\<close> finds set up (lines 392-475): the globals, the handles
  of the uniforms and programs, the four meshes and the camera matrices.
\<close>

record app =
  s_flipV :: bool
  s_rtShadowMap :: handle
  u_shadowMap :: handle
  u_lightPos :: handle
  u_lightMtx :: handle
  progPackDepth :: handle
  progDraw :: handle
  bunnyMesh :: Mesh
  cubeMesh :: Mesh
  hollowcubeMesh :: Mesh
  hplaneMesh :: Mesh
  view :: mtx
  proj :: mtx

definition RENDER_SHADOW_PASS_ID :: "8 word" where
  "RENDER_SHADOW_PASS_ID = 0"

definition RENDER_SCENE_PASS_ID :: "8 word" where
  "RENDER_SCENE_PASS_ID = 1"

text \<open>\<^verbatim>\<open>Mesh::submit\<close> (lines 355-383): seven calls for each group, in the order of \<^verbatim>\<open>m_groups\<close>.\<close>

fun submit_groups :: "app \<Rightarrow> Group list \<Rightarrow> 8 word \<Rightarrow> mtx \<Rightarrow> handle \<Rightarrow> call list" where
  "submit_groups a [] v model program = []"
| "submit_groups a (g # it) v model program =
     [ SetTransform model
     , SetProgram program
     , SetIndexBuffer (m_ibh g)
     , SetVertexBuffer (m_vbh g)
     , SetTexture 4 (u_shadowMap a) (s_rtShadowMap a)
     , SetState [ BGFX_STATE_RGB_WRITE, BGFX_STATE_ALPHA_WRITE, BGFX_STATE_DEPTH_WRITE
                , BGFX_STATE_DEPTH_TEST_LESS, BGFX_STATE_CULL_CCW, BGFX_STATE_MSAA ]
     , Submit v ]
     @ submit_groups a it v model program"

definition submit :: "app \<Rightarrow> Mesh \<Rightarrow> 8 word \<Rightarrow> mtx \<Rightarrow> handle \<Rightarrow> call list" where
  "submit a m v model program = submit_groups a (m_groups m) v model program"

section \<open>The frame loop\<close>

text \<open>
  The functions of \<^verbatim>\<open>fpumath.h\<close> that the frame calls and whose result the model does not
  look into are parameters: \<^verbatim>\<open>mtxRotateXYZ\<close> (as for \<^const>\<open>mtxScaleRotateTranslate\<close>),
  \<^verbatim>\<open>mtxLookAt\<close> and \<^verbatim>\<open>mtxOrtho\<close>.
\<close>

record fpumath =
  mtxRotateXYZ :: "real \<Rightarrow> real \<Rightarrow> real \<Rightarrow> nat \<Rightarrow> real"
  mtxLookAt :: "real list \<Rightarrow> real list \<Rightarrow> mtx"
  mtxOrtho :: "real \<Rightarrow> real \<Rightarrow> real \<Rightarrow> real \<Rightarrow> real \<Rightarrow> real \<Rightarrow> mtx"

text \<open>
  What one iteration takes from outside: the window size that \<^verbatim>\<open>entry::processEvents\<close>
  leaves in \<^verbatim>\<open>width\<close> and \<^verbatim>\<open>height\<close>, and the two values that the source derives from the
  timer of bx, \<^verbatim>\<open>deltaTime\<close> and the frame time in milliseconds that it prints.
\<close>

record frame_input =
  width :: "32 word"
  height :: "32 word"
  deltaTime :: real
  frameMs :: real

text \<open>The block \<^verbatim>\<open>Craft shadow map\<close> (lines 594-600).\<close>

definition craft_shadow_map :: "app \<Rightarrow> mtx \<Rightarrow> mtx \<Rightarrow> mtx \<Rightarrow> mtx \<Rightarrow> call list" where
  "craft_shadow_map a mtxFloor mtxBunny mtxHollowcube mtxCube =
       submit a (hplaneMesh a) RENDER_SHADOW_PASS_ID mtxFloor (progPackDepth a)
     @ submit a (bunnyMesh a) RENDER_SHADOW_PASS_ID mtxBunny (progPackDepth a)
     @ submit a (hollowcubeMesh a) RENDER_SHADOW_PASS_ID mtxHollowcube (progPackDepth a)
     @ submit a (cubeMesh a) RENDER_SHADOW_PASS_ID mtxCube (progPackDepth a)"

text \<open>The block \<^verbatim>\<open>Draw Scene\<close> (lines 602-640).\<close>

definition draw_scene :: "app \<Rightarrow> mtx \<Rightarrow> mtx \<Rightarrow> mtx \<Rightarrow> mtx \<Rightarrow> mtx \<Rightarrow> mtx \<Rightarrow> call list" where
  "draw_scene a lightView lightProj mtxFloor mtxBunny mtxHollowcube mtxCube =
     (let mtxTmp = mtxMul lightProj (mtxCrop (s_flipV a));
          mtxShadow = mtxMul lightView mtxTmp
      in
         (let lightMtx = mtxMul mtxFloor mtxShadow
          in SetUniform (u_lightMtx a) lightMtx
             # submit a (hplaneMesh a) RENDER_SCENE_PASS_ID mtxFloor (progDraw a))
       @ (let lightMtx = mtxMul mtxBunny mtxShadow
          in SetUniform (u_lightMtx a) lightMtx
             # submit a (bunnyMesh a) RENDER_SCENE_PASS_ID mtxBunny (progDraw a))
       @ (let lightMtx = mtxMul mtxHollowcube mtxShadow
          in SetUniform (u_lightMtx a) lightMtx
             # submit a (hollowcubeMesh a) RENDER_SCENE_PASS_ID mtxHollowcube (progDraw a))
       @ (let lightMtx = mtxMul mtxCube mtxShadow
          in SetUniform (u_lightMtx a) lightMtx
             # submit a (cubeMesh a) RENDER_SCENE_PASS_ID mtxCube (progDraw a)))"

text \<open>
  One iteration of the loop (lines 478-644), from the two time accumulators to the calls it
  makes and the accumulators it leaves. \<^verbatim>\<open>screenView\<close> and \<^verbatim>\<open>screenProj\<close> (lines 560-563)
  are computed and never used; they are left out.
\<close>

definition frame :: "fpumath \<Rightarrow> app \<Rightarrow> frame_input \<Rightarrow> real \<times> real \<Rightarrow> call list \<times> (real \<times> real)" where
  "frame f a i acc =
     (let (timeAccumulatorLight, timeAccumulatorScene) = acc;
          timeAccumulatorLight = timeAccumulatorLight + deltaTime i;
          timeAccumulatorScene = timeAccumulatorScene + deltaTime i;
          lightPos = [- cos timeAccumulatorLight, - 1, - sin timeAccumulatorLight, 0];
          mtxFloor = mtxScaleRotateTranslate (mtxRotateXYZ f) 30 30 30 0 0 0 0 0 0;
          mtxBunny = mtxScaleRotateTranslate (mtxRotateXYZ f) 5 5 5
                       0 (pi - timeAccumulatorScene) 0 15 5 0;
          mtxHollowcube = mtxScaleRotateTranslate (mtxRotateXYZ f) 2.5 2.5 2.5
                       0 (1.56 - timeAccumulatorScene) 0 0 10 0;
          mtxCube = mtxScaleRotateTranslate (mtxRotateXYZ f) 2.5 2.5 2.5
                       0 (1.56 - timeAccumulatorScene) 0 (- 15) 5 0;
          eye = [- (lightPos ! 0), - (lightPos ! 1), - (lightPos ! 2)];
          at' = [0, 0, 0];
          lightView = mtxLookAt f eye at';
          area = 30;
          lightProj = mtxOrtho f (- area) area (- area) area (- 100) 100
      in ( [ DbgTextClear
           , DbgTextPrintf 0 1 0x4f ''bgfx/examples/15-shadowmaps-simple'' []
           , DbgTextPrintf 0 2 0x6f ''Description: Shadow maps example.'' []
           , DbgTextPrintf 0 3 0x0f ''Frame: % 7.3f[ms]'' [frameMs i]
           , SetUniform (u_lightPos a) lightPos
           , SetViewRect RENDER_SHADOW_PASS_ID 0 0 512 512
           , SetViewRect RENDER_SCENE_PASS_ID 0 0 (unat (width i)) (unat (height i))
           , SetViewTransform RENDER_SHADOW_PASS_ID lightView lightProj
           , SetViewTransform RENDER_SCENE_PASS_ID (view a) (proj a)
           , SetViewRenderTarget RENDER_SHADOW_PASS_ID (s_rtShadowMap a)
           , SetViewClearMask 0x3 [BGFX_CLEAR_COLOR_BIT, BGFX_CLEAR_DEPTH_BIT] 0x303030ff 1.0 0
           , SubmitMask 0x3 ]
           @ craft_shadow_map a mtxFloor mtxBunny mtxHollowcube mtxCube
           @ draw_scene a lightView lightProj mtxFloor mtxBunny mtxHollowcube mtxCube
           @ [Frame]
         , (timeAccumulatorLight, timeAccumulatorScene) ))"

text \<open>
  The \<^verbatim>\<open>while (!entry::processEvents(...))\<close> loop (lines 476-646), over the iterations it
  makes before \<^verbatim>\<open>processEvents\<close> asks to leave: the calls of each iteration.
\<close>

fun frames :: "fpumath \<Rightarrow> app \<Rightarrow> real \<times> real \<Rightarrow> frame_input list \<Rightarrow> call list list" where
  "frames f a acc [] = []"
| "frames f a acc (i # is) = fst (frame f a i acc) # frames f a (snd (frame f a i acc)) is"

text \<open>
  Reading a frame's calls. The views of its draw submissions (\<^verbatim>\<open>bgfx::submit\<close>), in order;
  whether a call submits anything (\<^verbatim>\<open>bgfx::submit\<close> or \<^verbatim>\<open>bgfx::submitMask\<close>); and, for each
  draw submission to the shaded pass, the model matrix last given to \<^verbatim>\<open>setTransform\<close> and the
  value last given to the uniform \<open>u\<close>.
\<close>

fun submitted_views :: "call list \<Rightarrow> 8 word list" where
  "submitted_views [] = []"
| "submitted_views (Submit v # cs) = v # submitted_views cs"
| "submitted_views (c # cs) = submitted_views cs"

fun submits :: "call \<Rightarrow> bool" where
  "submits (Submit v) = True"
| "submits (SubmitMask m) = True"
| "submits c = False"

fun shaded_submissions :: "handle \<Rightarrow> mtx option \<Rightarrow> mtx option \<Rightarrow> call list \<Rightarrow> (mtx option \<times> mtx option) list" where
  "shaded_submissions u model light [] = []"
| "shaded_submissions u model light (SetTransform m # cs) = shaded_submissions u (Some m) light cs"
| "shaded_submissions u model light (SetUniform h m # cs) =
     shaded_submissions u model (if h = u then Some m else light) cs"
| "shaded_submissions u model light (Submit v # cs) =
     (if v = RENDER_SCENE_PASS_ID then [(model, light)] else []) @ shaded_submissions u model light cs"
| "shaded_submissions u model light (c # cs) = shaded_submissions u model light cs"

text \<open>
  The matrix shared by the objects of a frame (\<^verbatim>\<open>mtxShadow\<close>, lines 617-619), as a function
  of the light's view and projection.
\<close>

definition mtxShadow :: "app \<Rightarrow> mtx \<Rightarrow> mtx \<Rightarrow> mtx" where
  "mtxShadow a lightView lightProj = mtxMul lightView (mtxMul lightProj (mtxCrop (s_flipV a)))"

text \<open>The number of groups that one pass of a frame submits: those of the four meshes.\<close>

definition num_groups :: "app \<Rightarrow> nat" where
  "num_groups a =
     length (m_groups (hplaneMesh a)) + length (m_groups (bunnyMesh a))
     + length (m_groups (hollowcubeMesh a)) + length (m_groups (cubeMesh a))"

text \<open>
  An instance for concrete runs of a frame: a plane and a bunny of one group each, a cube
  and a hollow cube without groups, and functions of \<^verbatim>\<open>fpumath.h\<close> that give the identity.
\<close>

definition app_run :: app where
  "app_run =
     \<lparr> s_flipV = False, s_rtShadowMap = 0, u_shadowMap = 0, u_lightPos = 1, u_lightMtx = 2
     , progPackDepth = 0, progDraw = 1
     , bunnyMesh = \<lparr>m_decl = [], m_groups = [Group_new\<lparr>m_vbh := 0, m_ibh := 0\<rparr>]\<rparr>
     , cubeMesh = mesh_new
     , hollowcubeMesh = mesh_new
     , hplaneMesh = \<lparr>m_decl = [], m_groups = [Group_new\<lparr>m_vbh := 1, m_ibh := 1\<rparr>]\<rparr>
     , view = mtxIdentity, proj = mtxIdentity \<rparr>"

definition fpumath_run :: fpumath where
  "fpumath_run =
     \<lparr> mtxRotateXYZ = (\<lambda>ax ay az. (!) mtxIdentity)
     , mtxLookAt = (\<lambda>eye at'. mtxIdentity)
     , mtxOrtho = (\<lambda>left right bottom top near far. mtxIdentity) \<rparr>"

definition input_run :: frame_input where
  "input_run = \<lparr>width = 1280, height = 720, deltaTime = 0, frameMs = 0\<rparr>"

chapter \<open>Properties\<close>

section \<open>The transform utility\<close>

lemma replicate16: "replicate 16 (x::real) = [x, x, x, x, x, x, x, x, x, x, x, x, x, x, x, x]"
  by (simp add: numeral_eq_Suc)

text \<open>
  Claim C10. For all inputs to the scale/rotate/translate composition, and whatever
  \<^verbatim>\<open>mtxRotateXYZ\<close> writes, entries 12, 13 and 14 of the resulting matrix (its translation
  components) are the given translation, unaffected by the scale factors.
\<close>

theorem mtxScaleRotateTranslate_translation:
  "mtxScaleRotateTranslate rot sx sy sz rx ry rz tx ty tz ! 12 = tx
   \<and> mtxScaleRotateTranslate rot sx sy sz rx ry rz tx ty tz ! 13 = ty
   \<and> mtxScaleRotateTranslate rot sx sy sz rx ry rz tx ty tz ! 14 = tz"
  by (simp add: mtxScaleRotateTranslate_def mtxMul_def vec4MulMtx_def float16_def
      replicate16 Let_def)

text \<open>
  Claim C6. For all scale, rotation and translation inputs, \<^verbatim>\<open>mtxScaleRotateTranslate\<close>
  returns the product \<open>scale \<cdot> (rotate \<cdot> translate)\<close> of the diagonal scale matrix with the
  product of the rotation matrix and the translation matrix, provided \<^verbatim>\<open>mtxRotateXYZ\<close> writes
  a rotation matrix: zero in entries 3, 7, 11 and 12..14, one in entry 15.
\<close>

theorem mtxScaleRotateTranslate_product:
  assumes "rot rx ry rz 3 = 0" and "rot rx ry rz 7 = 0" and "rot rx ry rz 11 = 0"
    and "rot rx ry rz 12 = 0" and "rot rx ry rz 13 = 0" and "rot rx ry rz 14 = 0"
    and "rot rx ry rz 15 = 1"
  shows "mtxScaleRotateTranslate rot sx sy sz rx ry rz tx ty tz
       = composeScaleRotateTranslate rot sx sy sz rx ry rz tx ty tz"
  using assms
  by (simp add: mtxScaleRotateTranslate_def composeScaleRotateTranslate_def mtxScaleDiag_def
      mtxTranslate_def mtxIdentity_def mtxMul_def vec4MulMtx_def float16_def replicate16 Let_def)

text \<open>
  The product at a rotation about the z axis: scale (2, 3, 4), angle 0, translation (5, 6, 7).
\<close>

theorem mtxScaleRotateTranslate_product_witness:
  "mtxScaleRotateTranslate
     (\<lambda>rx ry rz. (!) [cos rz, - sin rz, 0, 0, sin rz, cos rz, 0, 0, 0, 0, 1, 0, 0, 0, 0, 1])
     2 3 4 0 0 0 5 6 7
   = composeScaleRotateTranslate
     (\<lambda>rx ry rz. (!) [cos rz, - sin rz, 0, 0, sin rz, cos rz, 0, 0, 0, 0, 1, 0, 0, 0, 0, 1])
     2 3 4 0 0 0 5 6 7"
  using mtxScaleRotateTranslate_product
    [of "\<lambda>rx ry rz. (!) [cos rz, - sin rz, 0, 0, sin rz, cos rz, 0, 0, 0, 0, 1, 0, 0, 0, 0, 1]"
        0 0 0 2 3 4 5 6 7]
  by simp

text \<open>
  Claim C3, as the spec states it, fails: with \<^verbatim>\<open>s_flipV = false\<close> the vertical scale term
  is \<open>-0.5\<close>, and the clip-space corner \<open>(-1, -1, -1)\<close> goes to \<open>(0, 1, 0)\<close>, not to
  \<open>(0, 0, 0)\<close>. All the values involved are exact in binary floating point.
\<close>

theorem mtxCrop_noflip_counterexample:
  "vec4MulMtx [- 1, - 1, - 1, 1] (mtxCrop False) = [0, 1, 0, 1]
   \<and> vec4MulMtx [- 1, - 1, - 1, 1] (mtxCrop False) \<noteq> [0, 0, 0, 1]"
  by (simp add: vec4MulMtx_def mtxCrop_def)

text \<open>
  Claim C3, amended: the two cases are the other way round. \<^verbatim>\<open>mtxCrop\<close> with
  \<^verbatim>\<open>s_flipV = true\<close> maps the clip-space corner \<open>(-1, -1, -1)\<close> to \<open>(0, 0, 0)\<close> and
  \<open>(1, 1, 1)\<close> to \<open>(1, 1, 1)\<close>; with \<^verbatim>\<open>s_flipV = false\<close> it inverts the vertical
  coordinate and maps \<open>(-1, 1, -1)\<close> to \<open>(0, 0, 0)\<close>; the flag changes only the sign of
  the vertical scale term, entry 5 of the matrix.
\<close>

theorem mtxCrop_maps:
  "vec4MulMtx [- 1, - 1, - 1, 1] (mtxCrop True) = [0, 0, 0, 1]
   \<and> vec4MulMtx [1, 1, 1, 1] (mtxCrop True) = [1, 1, 1, 1]
   \<and> vec4MulMtx [- 1, 1, - 1, 1] (mtxCrop False) = [0, 0, 0, 1]
   \<and> mtxCrop True = (mtxCrop False)[5 := - (mtxCrop False ! 5)]
   \<and> mtxCrop flipV ! 5 = (if flipV then 1 / 2 else - (1 / 2))"
  by (simp add: vec4MulMtx_def mtxCrop_def)

section \<open>Mesh::unload\<close>

lemma destroyed_vbs_append: "destroyed_vbs (xs @ ys) = destroyed_vbs xs @ destroyed_vbs ys"
  by (induction xs rule: destroyed_vbs.induct) auto

lemma destroyed_ibs_append: "destroyed_ibs (xs @ ys) = destroyed_ibs xs @ destroyed_ibs ys"
  by (induction xs rule: destroyed_ibs.induct) auto

lemma unload_groups_calls:
  "unload_groups gs cs =
     cs @ concat (map (\<lambda>g. DestroyVertexBuffer (m_vbh g) #
                         (if isValid (m_ibh g) then [DestroyIndexBuffer (m_ibh g)] else [])) gs)"
  by (induction gs arbitrary: cs) (auto simp: Let_def)

lemma unload_groups_vbs:
  "destroyed_vbs (unload_groups gs cs) = destroyed_vbs cs @ map m_vbh gs"
  by (induction gs arbitrary: cs) (auto simp: Let_def destroyed_vbs_append)

lemma unload_groups_ibs:
  "destroyed_ibs (unload_groups gs cs) = destroyed_ibs cs @ filter isValid (map m_ibh gs)"
  by (induction gs arbitrary: cs) (auto simp: Let_def destroyed_ibs_append)

text \<open>
  Claim C9. \<^verbatim>\<open>Mesh::unload\<close> makes, for each group in order, one call that destroys its
  vertex buffer, whatever the handle, and one call that destroys its index buffer only when
  that handle is valid; it leaves the group list empty; and a second \<^verbatim>\<open>unload\<close> of the
  same Mesh makes no call and changes nothing.
\<close>

theorem unload_idempotent:
  "snd (unload m cs) =
     cs @ concat (map (\<lambda>g. DestroyVertexBuffer (m_vbh g) #
                         (if isValid (m_ibh g) then [DestroyIndexBuffer (m_ibh g)] else []))
                  (m_groups m))
   \<and> destroyed_vbs (snd (unload m [])) = map m_vbh (m_groups m)
   \<and> destroyed_ibs (snd (unload m [])) = filter isValid (map m_ibh (m_groups m))
   \<and> m_groups (fst (unload m cs)) = []
   \<and> unload (fst (unload m cs)) cs' = (fst (unload m cs), cs')"
proof -
  have "snd (unload m cs) =
     cs @ concat (map (\<lambda>g. DestroyVertexBuffer (m_vbh g) #
                         (if isValid (m_ibh g) then [DestroyIndexBuffer (m_ibh g)] else []))
                  (m_groups m))"
    by (simp add: unload_def unload_groups_calls)
  moreover have "destroyed_vbs (snd (unload m [])) = map m_vbh (m_groups m)"
    by (simp add: unload_def unload_groups_vbs)
  moreover have "destroyed_ibs (snd (unload m [])) = filter isValid (map m_ibh (m_groups m))"
    by (simp add: unload_def unload_groups_ibs)
  moreover have "m_groups (fst (unload m cs)) = []"
    by (simp add: unload_def)
  moreover have "unload (fst (unload m cs)) cs' = (fst (unload m cs), cs')"
    by (simp add: unload_def)
  ultimately show ?thesis by blast
qed

text \<open>
  A Mesh of two groups, the second without an index buffer: three destroy calls, then none.
\<close>

theorem unload_idempotent_witness:
  "unload \<lparr>m_decl = [], m_groups =
       [ \<lparr>m_vbh = 0, m_ibh = 0, m_sphere = None, m_aabb = None, m_obb = None, m_prims = []\<rparr>
       , \<lparr>m_vbh = 1, m_ibh = invalidHandle, m_sphere = None, m_aabb = None, m_obb = None,
           m_prims = []\<rparr> ]\<rparr> []
     = (\<lparr>m_decl = [], m_groups = []\<rparr>,
        [DestroyVertexBuffer 0, DestroyIndexBuffer 0, DestroyVertexBuffer 1])
   \<and> unload \<lparr>m_decl = [], m_groups = []\<rparr>
        [DestroyVertexBuffer 0, DestroyIndexBuffer 0, DestroyVertexBuffer 1]
     = (\<lparr>m_decl = [], m_groups = []\<rparr>,
        [DestroyVertexBuffer 0, DestroyIndexBuffer 0, DestroyVertexBuffer 1])"
  using unload_idempotent
    [of "\<lparr>m_decl = [], m_groups =
       [ \<lparr>m_vbh = 0, m_ibh = 0, m_sphere = None, m_aabb = None, m_obb = None, m_prims = []\<rparr>
       , \<lparr>m_vbh = 1, m_ibh = invalidHandle, m_sphere = None, m_aabb = None, m_obb = None,
           m_prims = []\<rparr> ]\<rparr>" "[]"
        "[DestroyVertexBuffer 0, DestroyIndexBuffer 0, DestroyVertexBuffer 1]"]
  by (simp add: unload_def isValid_def invalidHandle_def Let_def)

section \<open>Mesh::load\<close>



















section \<open>The frame\<close>

lemma submitted_views_append:
  "submitted_views (xs @ ys) = submitted_views xs @ submitted_views ys"
  by (induction xs rule: submitted_views.induct) auto

lemma submitted_views_submit_groups:
  "submitted_views (submit_groups a gs v model p) = replicate (length gs) v"
  by (induction gs) auto

lemma submitted_views_submit:
  "submitted_views (submit a m v model p) = replicate (length (m_groups m)) v"
  by (simp add: submit_def submitted_views_submit_groups)

lemma submitted_views_craft:
  "submitted_views (craft_shadow_map a m1 m2 m3 m4) =
     replicate (num_groups a) RENDER_SHADOW_PASS_ID"
  by (simp add: craft_shadow_map_def submitted_views_append submitted_views_submit
      replicate_add num_groups_def)

lemma submitted_views_scene:
  "submitted_views (draw_scene a lv lp m1 m2 m3 m4) =
     replicate (num_groups a) RENDER_SCENE_PASS_ID"
  by (simp add: draw_scene_def Let_def submitted_views_append submitted_views_submit
      replicate_add num_groups_def)

lemma frame_order:
  "(\<exists>pre post. fst (frame f a i acc) =
        pre @ SetViewClearMask 0x3 [BGFX_CLEAR_COLOR_BIT, BGFX_CLEAR_DEPTH_BIT] 0x303030ff 1 0
              # post
      \<and> filter submits pre = [])
   \<and> submitted_views (fst (frame f a i acc)) =
       replicate (num_groups a) RENDER_SHADOW_PASS_ID
       @ replicate (num_groups a) RENDER_SCENE_PASS_ID"
proof
  obtain tl ts where acc: "acc = (tl, ts)" by (cases acc)
  show "\<exists>pre post. fst (frame f a i acc) =
        pre @ SetViewClearMask 0x3 [BGFX_CLEAR_COLOR_BIT, BGFX_CLEAR_DEPTH_BIT] 0x303030ff 1 0
              # post
      \<and> filter submits pre = []"
    unfolding frame_def acc Let_def prod.case fst_conv
    apply (rule exI[of _ "[DbgTextClear, _, _, _, _, _, _, _, _, _]"])
    apply (rule exI)
    apply (rule conjI)
     apply simp
    apply simp
    done
  show "submitted_views (fst (frame f a i acc)) =
       replicate (num_groups a) RENDER_SHADOW_PASS_ID
       @ replicate (num_groups a) RENDER_SCENE_PASS_ID"
    unfolding frame_def acc Let_def prod.case fst_conv
    by (simp add: submitted_views_append submitted_views_craft submitted_views_scene)
qed

lemma frames_length: "length (frames f a acc inputs) = length inputs"
  by (induction inputs arbitrary: acc) auto

lemma frames_all:
  assumes "\<And>i acc. P (fst (frame f a i acc))"
  shows "cs \<in> set (frames f a acc inputs) \<Longrightarrow> P cs"
proof (induction inputs arbitrary: acc)
  case Nil
  then show ?case by simp
next
  case (Cons i inputs)
  from Cons.prems
  have "cs = fst (frame f a i acc) \<or> cs \<in> set (frames f a (snd (frame f a i acc)) inputs)"
    by simp
  then show ?case using assms Cons.IH by blast
qed

lemma shaded_submit_groups:
  "shaded_submissions u model light (submit_groups a gs v mdl p @ rest) =
     (if v = RENDER_SCENE_PASS_ID then replicate (length gs) (Some mdl, light) else [])
     @ shaded_submissions u (if gs = [] then model else Some mdl) light rest"
  by (induction gs arbitrary: model) auto

lemma shaded_submit:
  "shaded_submissions u model light (submit a m v mdl p @ rest) =
     (if v = RENDER_SCENE_PASS_ID then replicate (length (m_groups m)) (Some mdl, light) else [])
     @ shaded_submissions u (if m_groups m = [] then model else Some mdl) light rest"
  by (simp add: submit_def shaded_submit_groups)

lemma pass_ids: "RENDER_SHADOW_PASS_ID \<noteq> RENDER_SCENE_PASS_ID"
  by (simp add: RENDER_SHADOW_PASS_ID_def RENDER_SCENE_PASS_ID_def)

lemma shaded_craft:
  "shaded_submissions u model light (craft_shadow_map a m1 m2 m3 m4 @ rest) =
     shaded_submissions u
       (if m_groups (cubeMesh a) = [] then
          if m_groups (hollowcubeMesh a) = [] then
            if m_groups (bunnyMesh a) = [] then
              if m_groups (hplaneMesh a) = [] then model else Some m1
            else Some m2
          else Some m3
        else Some m4) light rest"
  unfolding craft_shadow_map_def append_assoc
  by (simp only: shaded_submit pass_ids if_False append_Nil)

lemma shaded_scene:
  "shaded_submissions (u_lightMtx a) model light (draw_scene a lv lp m1 m2 m3 m4 @ [Frame]) =
       replicate (length (m_groups (hplaneMesh a)))
         (Some m1, Some (mtxMul m1 (mtxShadow a lv lp)))
     @ replicate (length (m_groups (bunnyMesh a)))
         (Some m2, Some (mtxMul m2 (mtxShadow a lv lp)))
     @ replicate (length (m_groups (hollowcubeMesh a)))
         (Some m3, Some (mtxMul m3 (mtxShadow a lv lp)))
     @ replicate (length (m_groups (cubeMesh a)))
         (Some m4, Some (mtxMul m4 (mtxShadow a lv lp)))"
  unfolding draw_scene_def Let_def append_assoc append_Cons mtxShadow_def
  by (simp add: shaded_submit split del: if_split)

text \<open>
  Claim C4. In each frame there is one matrix \<open>lightView \<cdot> lightProj \<cdot> mtxCrop\<close>
  (\<^const>\<open>mtxShadow\<close>, of the light's view and projection that the frame gives to the depth
  pass), and at every draw submission to the shaded pass the value of the uniform
  \<^verbatim>\<open>u_lightMtx\<close> is the product of the model matrix of that submission with this one matrix:
  for the groups of the plane, the bunny, the hollow cube and the cube, in this order.
\<close>

theorem frame_light_transform:
  "\<exists>lightView lightProj mtxFloor mtxBunny mtxHollowcube mtxCube.
     SetViewTransform RENDER_SHADOW_PASS_ID lightView lightProj \<in> set (fst (frame f a i acc))
   \<and> shaded_submissions (u_lightMtx a) None None (fst (frame f a i acc)) =
       replicate (length (m_groups (hplaneMesh a)))
         (Some mtxFloor, Some (mtxMul mtxFloor (mtxShadow a lightView lightProj)))
     @ replicate (length (m_groups (bunnyMesh a)))
         (Some mtxBunny, Some (mtxMul mtxBunny (mtxShadow a lightView lightProj)))
     @ replicate (length (m_groups (hollowcubeMesh a)))
         (Some mtxHollowcube, Some (mtxMul mtxHollowcube (mtxShadow a lightView lightProj)))
     @ replicate (length (m_groups (cubeMesh a)))
         (Some mtxCube, Some (mtxMul mtxCube (mtxShadow a lightView lightProj)))"
proof -
  obtain tl ts where acc: "acc = (tl, ts)" by (cases acc)
  show ?thesis
    unfolding frame_def acc Let_def prod.case fst_conv
    apply (intro exI conjI)
     apply (simp only: append_Cons append_Nil set_simps)
     apply blast
    apply (simp only: append_Cons append_Nil shaded_submissions.simps shaded_craft shaded_scene)
    done
qed

text \<open>
  Claim C8. Every iteration of the frame loop makes its calls in this order: the request to
  clear colour and depth of the views of mask 3, which are the depth pass and the shaded
  pass, comes before any submission; and the draw submissions of the frame are those to the
  depth pass, one for each group of the four meshes, followed by those to the shaded pass.
\<close>

theorem frames_pass_order:
  "length (frames f a acc inputs) = length inputs
   \<and> bit (0x3 :: 32 word) (unat RENDER_SHADOW_PASS_ID)
   \<and> bit (0x3 :: 32 word) (unat RENDER_SCENE_PASS_ID)
   \<and> (\<forall>cs \<in> set (frames f a acc inputs).
       (\<exists>pre post. cs =
          pre @ SetViewClearMask 0x3 [BGFX_CLEAR_COLOR_BIT, BGFX_CLEAR_DEPTH_BIT] 0x303030ff 1 0
                # post
        \<and> filter submits pre = [])
     \<and> submitted_views cs =
         replicate (num_groups a) RENDER_SHADOW_PASS_ID
         @ replicate (num_groups a) RENDER_SCENE_PASS_ID)"
proof (intro conjI ballI)
  show "length (frames f a acc inputs) = length inputs"
    by (rule frames_length)
  show "bit (0x3 :: 32 word) (unat RENDER_SHADOW_PASS_ID)"
    by (simp add: RENDER_SHADOW_PASS_ID_def)
  show "bit (0x3 :: 32 word) (unat RENDER_SCENE_PASS_ID)"
    by (simp add: RENDER_SCENE_PASS_ID_def)
next
  fix cs
  assume cs: "cs \<in> set (frames f a acc inputs)"
  let ?P = "\<lambda>cs. (\<exists>pre post. cs =
          pre @ SetViewClearMask 0x3 [BGFX_CLEAR_COLOR_BIT, BGFX_CLEAR_DEPTH_BIT] 0x303030ff 1 0
                # post
        \<and> filter submits pre = [])
     \<and> submitted_views cs =
         replicate (num_groups a) RENDER_SHADOW_PASS_ID
         @ replicate (num_groups a) RENDER_SCENE_PASS_ID"
  have *: "?P cs"
    using cs by (rule frames_all[where P = ?P, rotated]) (rule frame_order)
  from * show "\<exists>pre post. cs =
          pre @ SetViewClearMask 0x3 [BGFX_CLEAR_COLOR_BIT, BGFX_CLEAR_DEPTH_BIT] 0x303030ff 1 0
                # post
        \<and> filter submits pre = []"
    by blast
  from * show "submitted_views cs =
         replicate (num_groups a) RENDER_SHADOW_PASS_ID
         @ replicate (num_groups a) RENDER_SCENE_PASS_ID"
    by blast
qed

text \<open>
  One iteration with a plane and a bunny of one group each: two submissions to the depth
  pass, then two to the shaded pass.
\<close>

theorem frames_pass_order_witness:
  "length (frames fpumath_run app_run (0, 0) [input_run]) = 1
   \<and> submitted_views (fst (frame fpumath_run app_run input_run (0, 0)))
     = [RENDER_SHADOW_PASS_ID, RENDER_SHADOW_PASS_ID, RENDER_SCENE_PASS_ID, RENDER_SCENE_PASS_ID]"
proof -
  have n: "num_groups app_run = 2"
    by (simp add: num_groups_def app_run_def mesh_new_def)
  from frames_pass_order[of fpumath_run app_run "(0, 0)" "[input_run]"]
  show ?thesis by (simp add: n numeral_2_eq_2)
qed

end
